theory Spec2Isabelle
  imports Main
begin

section \<open>Paths\<close>

type_synonym TfToken = string

text \<open>
  Modelled from the spec: the class SdfPath (pxr/usd/sdf/path.h) is used by
  prefixingSceneIndex.cpp but is not among the sources. The spec describes a path as an
  immutable sequence of name tokens that is either absolute (anchored at the root) or
  relative, with structural equality, and names a distinct empty (null) path, which the
  source writes \<^verbatim>\<open>SdfPath()\<close>. Only prim paths are modelled: \<open>Path a es\<close> is
  the path with the tokens \<open>es\<close>, absolute when \<open>a\<close> holds.
\<close>

datatype SdfPath = EmptyPath | Path bool "TfToken list"

text \<open>Modelled from the spec: \<^verbatim>\<open>SdfPath::AbsoluteRootPath()\<close>, the distinguished root.\<close>

definition AbsoluteRootPath :: SdfPath where
  "AbsoluteRootPath = Path True []"

text \<open>Modelled from the spec: \<^verbatim>\<open>SdfPath::IsAbsolutePath\<close>; the empty path is not absolute.\<close>

fun IsAbsolutePath :: "SdfPath \<Rightarrow> bool" where
  "IsAbsolutePath EmptyPath = False"
| "IsAbsolutePath (Path a es) = a"

text \<open>Modelled from the spec: \<^verbatim>\<open>SdfPath::GetPathElementCount\<close>, the number of name tokens.\<close>

fun GetPathElementCount :: "SdfPath \<Rightarrow> nat" where
  "GetPathElementCount EmptyPath = 0"
| "GetPathElementCount (Path a es) = length es"

text \<open>
  Modelled from the spec: \<^verbatim>\<open>SdfPath::HasPrefix\<close>. \<open>HasPrefix p q\<close> is
  \<^verbatim>\<open>p.HasPrefix(q)\<close>: both are paths with the same anchoring and the tokens of \<open>q\<close>
  are an initial segment of the tokens of \<open>p\<close>. The test is on whole tokens, so
  \<^verbatim>\<open>/AB/C\<close> does not have the prefix \<^verbatim>\<open>/A\<close>. The empty path has no prefix
  and is no prefix.
\<close>

fun HasPrefix :: "SdfPath \<Rightarrow> SdfPath \<Rightarrow> bool" where
  "HasPrefix (Path a es) (Path b ps) = (a = b \<and> take (length ps) es = ps)"
| "HasPrefix _ _ = False"

text \<open>
  Modelled from the spec: \<^verbatim>\<open>SdfPath::ReplacePrefix\<close>.
  \<open>ReplacePrefix p old new\<close> is \<^verbatim>\<open>p.ReplacePrefix(old, new)\<close>: a no-op when
  \<open>old\<close> is not a prefix of \<open>p\<close>; otherwise the tokens of \<open>old\<close> at the front of
  \<open>p\<close> are replaced by \<open>new\<close>, whose anchoring the result takes. Replacing a prefix
  by the empty path gives the empty path.
\<close>

fun ReplacePrefix :: "SdfPath \<Rightarrow> SdfPath \<Rightarrow> SdfPath \<Rightarrow> SdfPath" where
  "ReplacePrefix (Path a es) (Path b os) (Path c ns) =
     (if HasPrefix (Path a es) (Path b os) then Path c (ns @ drop (length os) es)
      else Path a es)"
| "ReplacePrefix (Path a es) (Path b os) EmptyPath =
     (if HasPrefix (Path a es) (Path b os) then EmptyPath else Path a es)"
| "ReplacePrefix p _ _ = p"

text \<open>
  Modelled from the spec: \<^verbatim>\<open>SdfPath::GetPrefixes\<close>, the ancestors of a path from
  the shortest to the path itself. The root itself is not listed: the entry at index
  \<open>k\<close> has \<open>k + 1\<close> tokens, as the comment in
  \<^verbatim>\<open>HdPrefixingSceneIndex::GetChildPrimPaths\<close> and the spec's junction example
  (prefix \<^verbatim>\<open>/A/B/C/D\<close>, children of \<^verbatim>\<open>/\<close> are \<^verbatim>\<open>[/A]\<close>) require.
\<close>

fun GetPrefixes :: "SdfPath \<Rightarrow> SdfPath list" where
  "GetPrefixes EmptyPath = []"
| "GetPrefixes (Path a es) = map (\<lambda>k. Path a (take (Suc k) es)) [0..<length es]"

text \<open>
  Modelled from the spec: the number of leading tokens two token sequences share, used
  by \<^verbatim>\<open>SdfPath::MakeRelativePath\<close> below to find the common ancestor.
\<close>

fun CommonLength :: "TfToken list \<Rightarrow> TfToken list \<Rightarrow> nat" where
  "CommonLength (x # xs) (y # ys) = (if x = y then Suc (CommonLength xs ys) else 0)"
| "CommonLength _ _ = 0"

text \<open>
  Modelled from the spec: \<^verbatim>\<open>SdfPath::MakeRelativePath\<close>, the relative path that
  leads from an absolute anchor to this path: the anchor's tokens beyond the common
  ancestor are climbed with \<^verbatim>\<open>..\<close>, then the remaining tokens of the path follow.
  A relative path is returned as it is; the empty path and an anchor that is not
  absolute give the empty path.
\<close>

fun MakeRelativePath :: "SdfPath \<Rightarrow> SdfPath \<Rightarrow> SdfPath" where
  "MakeRelativePath (Path True es) (Path True bs) =
     (let k = CommonLength es bs
      in Path False (replicate (length bs - k) ''..'' @ drop k es))"
| "MakeRelativePath (Path False es) (Path True bs) = Path False es"
| "MakeRelativePath _ _ = EmptyPath"

text \<open>
  Modelled from the spec: \<^verbatim>\<open>SdfPath::AppendPath\<close>: the tokens of a relative suffix
  are appended to this path. An absolute or empty suffix, or an empty receiver, gives
  the empty path.
\<close>

fun AppendPath :: "SdfPath \<Rightarrow> SdfPath \<Rightarrow> SdfPath" where
  "AppendPath (Path a es) (Path False ss) = Path a (es @ ss)"
| "AppendPath _ _ = EmptyPath"

section \<open>Data sources\<close>

text \<open>
  Modelled from the spec: \<^verbatim>\<open>VtValue\<close>, the generic value envelope; only the
  envelope of a path is needed.
\<close>

datatype VtValue = VtValue SdfPath

text \<open>
  A path-typed sampled data source (\<^verbatim>\<open>HdTypedSampledDataSource<SdfPath>\<close>) is an
  object of one of two classes: some upstream implementation, given by its methods
  \<^verbatim>\<open>GetValue\<close>, \<^verbatim>\<open>GetTypedValue\<close> and
  \<^verbatim>\<open>GetContributingSampleTimesForInterval\<close> (the last takes the current contents
  of the output vector and returns the flag with the new contents), or the wrapper
  class \<^verbatim>\<open>Hd_PrefixingSceneIndexPathDataSource\<close> with its two fields
  \<^verbatim>\<open>_prefix\<close> and \<^verbatim>\<open>_inputDataSource\<close>. A handle is an \<open>option\<close>;
  \<open>None\<close> is the null handle. The type \<open>'t\<close> is the type of sample times.
\<close>

datatype 't HdPathDataSource =
    UpstreamPathDataSource
      "'t \<Rightarrow> VtValue" "'t \<Rightarrow> SdfPath" "'t \<Rightarrow> 't \<Rightarrow> 't list \<Rightarrow> bool \<times> 't list"
  | Hd_PrefixingSceneIndexPathDataSource SdfPath "'t HdPathDataSource option"

text \<open>
  A container data source is an upstream implementation, given by its methods
  \<^verbatim>\<open>Has\<close>, \<^verbatim>\<open>GetNames\<close> and \<^verbatim>\<open>Get\<close>, or the wrapper class
  \<^verbatim>\<open>Hd_PrefixingSceneIndexContainerDataSource\<close> with its fields
  \<^verbatim>\<open>_prefix\<close> and \<^verbatim>\<open>_inputDataSource\<close>. A data source
  (\<^verbatim>\<open>HdDataSourceBase\<close>) is a container, a path-typed sampled data source, or a
  data source of another kind, of the opaque type \<open>'o\<close>; the two casts of
  \<^verbatim>\<open>Get\<close> succeed on the first and on the second respectively.
\<close>

datatype ('t, 'o) HdContainerDataSource =
    UpstreamContainerDataSource
      "TfToken \<Rightarrow> bool" "TfToken list" "TfToken \<Rightarrow> ('t, 'o) HdDataSourceBase option"
  | Hd_PrefixingSceneIndexContainerDataSource SdfPath "('t, 'o) HdContainerDataSource option"
and ('t, 'o) HdDataSourceBase =
    ContainerDataSource "('t, 'o) HdContainerDataSource"
  | PathDataSource "'t HdPathDataSource"
  | OtherDataSource 'o

fun GetTypedValue :: "'t HdPathDataSource \<Rightarrow> 't \<Rightarrow> SdfPath" where
  "GetTypedValue (UpstreamPathDataSource gv gtv gc) shutterOffset = gtv shutterOffset"
| "GetTypedValue (Hd_PrefixingSceneIndexPathDataSource prefix inputDataSource) shutterOffset =
     (case inputDataSource of
        None \<Rightarrow> EmptyPath
      | Some input \<Rightarrow>
          (let result = GetTypedValue input shutterOffset
           in if IsAbsolutePath result
              then ReplacePrefix result AbsoluteRootPath prefix
              else result))"

fun GetValue :: "'t HdPathDataSource \<Rightarrow> 't \<Rightarrow> VtValue" where
  "GetValue (UpstreamPathDataSource gv gtv gc) shutterOffset = gv shutterOffset"
| "GetValue (Hd_PrefixingSceneIndexPathDataSource prefix inputDataSource) shutterOffset =
     VtValue (GetTypedValue
       (Hd_PrefixingSceneIndexPathDataSource prefix inputDataSource) shutterOffset)"

fun GetContributingSampleTimesForInterval ::
  "'t HdPathDataSource \<Rightarrow> 't \<Rightarrow> 't \<Rightarrow> 't list \<Rightarrow> bool \<times> 't list" where
  "GetContributingSampleTimesForInterval (UpstreamPathDataSource gv gtv gc)
     startTime endTime outSampleTimes = gc startTime endTime outSampleTimes"
| "GetContributingSampleTimesForInterval
     (Hd_PrefixingSceneIndexPathDataSource prefix inputDataSource)
     startTime endTime outSampleTimes =
     (case inputDataSource of
        Some input \<Rightarrow>
          GetContributingSampleTimesForInterval input startTime endTime outSampleTimes
      | None \<Rightarrow> (False, outSampleTimes))"

fun Has :: "('t, 'o) HdContainerDataSource \<Rightarrow> TfToken \<Rightarrow> bool" where
  "Has (UpstreamContainerDataSource h ns g) name = h name"
| "Has (Hd_PrefixingSceneIndexContainerDataSource prefix inputDataSource) name =
     (case inputDataSource of Some input \<Rightarrow> Has input name | None \<Rightarrow> False)"

fun GetNames :: "('t, 'o) HdContainerDataSource \<Rightarrow> TfToken list" where
  "GetNames (UpstreamContainerDataSource h ns g) = ns"
| "GetNames (Hd_PrefixingSceneIndexContainerDataSource prefix inputDataSource) =
     (case inputDataSource of Some input \<Rightarrow> GetNames input | None \<Rightarrow> [])"

fun Get :: "('t, 'o) HdContainerDataSource \<Rightarrow> TfToken \<Rightarrow> ('t, 'o) HdDataSourceBase option" where
  "Get (UpstreamContainerDataSource h ns g) name = g name"
| "Get (Hd_PrefixingSceneIndexContainerDataSource prefix inputDataSource) name =
     (case inputDataSource of
        None \<Rightarrow> None
      | Some input \<Rightarrow>
          (case Get input name of
             Some childSource \<Rightarrow>
               (case childSource of
                  ContainerDataSource childContainer \<Rightarrow>
                    Some (ContainerDataSource
                      (Hd_PrefixingSceneIndexContainerDataSource prefix (Some childContainer)))
                | PathDataSource childPathDataSource \<Rightarrow>
                    Some (PathDataSource
                      (Hd_PrefixingSceneIndexPathDataSource prefix (Some childPathDataSource)))
                | OtherDataSource other \<Rightarrow> Some childSource)
           | None \<Rightarrow> None))"

section \<open>The prefixing scene index\<close>

record ('t, 'o) HdSceneIndexPrim =
  primType :: TfToken
  dataSource :: "('t, 'o) HdContainerDataSource option"

text \<open>
  The input scene index is an object of the interface \<^verbatim>\<open>HdSceneIndexBase\<close>, given by
  its two query methods.
\<close>

record ('t, 'o) HdSceneIndexBase =
  GetPrim :: "SdfPath \<Rightarrow> ('t, 'o) HdSceneIndexPrim"
  GetChildPrimPaths :: "SdfPath \<Rightarrow> SdfPath list"

datatype AddedPrimEntry =
  AddedPrimEntry (AddedPrimEntry_primPath: SdfPath) (AddedPrimEntry_primType: TfToken)

datatype RemovedPrimEntry = RemovedPrimEntry (RemovedPrimEntry_primPath: SdfPath)

text \<open>The type \<open>'l\<close> is the type of dirty-locator sets.\<close>

datatype 'l DirtiedPrimEntry =
  DirtiedPrimEntry (DirtiedPrimEntry_primPath: SdfPath) (DirtiedPrimEntry_dirtyLocators: 'l)

datatype 'l Notice =
    PrimsAddedNotice "AddedPrimEntry list"
  | PrimsRemovedNotice "RemovedPrimEntry list"
  | PrimsDirtiedNotice "'l DirtiedPrimEntry list"

text \<open>
  The fields of \<^verbatim>\<open>HdPrefixingSceneIndex\<close>: the handle of the input scene (null is
  \<open>None\<close>) that the base class keeps and \<^verbatim>\<open>_GetInputSceneIndex()\<close> returns, the
  prefix, and the registered observers of the base class, each represented by the
  sequence of batches it has received so far.
\<close>

record ('t, 'o, 'l) HdPrefixingSceneIndex =
  inputSceneIndex :: "('t, 'o) HdSceneIndexBase option"
  prefix :: SdfPath
  observers :: "'l Notice list list"

text \<open>
  Dereferencing a null handle and indexing a vector out of range do not return in the
  source; they are results of the model.
\<close>

datatype error = NullDereference | IndexOutOfRange

definition AddPathPrefix :: "('t, 'o, 'l) HdPrefixingSceneIndex \<Rightarrow> SdfPath \<Rightarrow> SdfPath" where
  "AddPathPrefix self primPath = ReplacePrefix primPath AbsoluteRootPath (prefix self)"

definition RemovePathPrefix :: "('t, 'o, 'l) HdPrefixingSceneIndex \<Rightarrow> SdfPath \<Rightarrow> SdfPath" where
  "RemovePathPrefix self primPath = ReplacePrefix primPath (prefix self) AbsoluteRootPath"

definition HdPrefixingSceneIndex_GetPrim ::
  "('t, 'o, 'l) HdPrefixingSceneIndex \<Rightarrow> SdfPath \<Rightarrow> error + ('t, 'o) HdSceneIndexPrim" where
  "HdPrefixingSceneIndex_GetPrim self primPath =
     (if \<not> HasPrefix primPath (prefix self)
      then Inr \<lparr>primType = [], dataSource = None\<rparr>
      else case inputSceneIndex self of
             None \<Rightarrow> Inl NullDereference
           | Some input \<Rightarrow>
               (let prim = GetPrim input (RemovePathPrefix self primPath)
                in Inr (case dataSource prim of
                          Some ds \<Rightarrow>
                            prim\<lparr>dataSource :=
                              Some (Hd_PrefixingSceneIndexContainerDataSource
                                      (prefix self) (Some ds))\<rparr>
                        | None \<Rightarrow> prim)))"

definition HdPrefixingSceneIndex_GetChildPrimPaths ::
  "('t, 'o, 'l) HdPrefixingSceneIndex \<Rightarrow> SdfPath \<Rightarrow> error + SdfPath list" where
  "HdPrefixingSceneIndex_GetChildPrimPaths self primPath =
     (if HasPrefix primPath (prefix self)
      then case inputSceneIndex self of
             None \<Rightarrow> Inl NullDereference
           | Some input \<Rightarrow>
               Inr (map (\<lambda>path. AppendPath (prefix self)
                                  (MakeRelativePath path AbsoluteRootPath))
                        (GetChildPrimPaths input (RemovePathPrefix self primPath)))
      else if HasPrefix (prefix self) primPath
      then (let prefixes = GetPrefixes (prefix self);
                i = GetPathElementCount primPath
            in if i < length prefixes then Inr [prefixes ! i] else Inl IndexOutOfRange)
      else Inr [])"

text \<open>
  Modelled from the spec: \<^verbatim>\<open>_SendPrimsAdded\<close> belongs to the base class
  \<^verbatim>\<open>HdSceneIndexBase\<close>, which is not among the sources. By the spec the batch is
  delivered, as a single batch, to each registered observer of this scene index.
\<close>

definition SendPrimsAdded ::
  "('t, 'o, 'l) HdPrefixingSceneIndex \<Rightarrow> AddedPrimEntry list \<Rightarrow> ('t, 'o, 'l) HdPrefixingSceneIndex" where
  "SendPrimsAdded self entries =
     self\<lparr>observers := map (\<lambda>received. received @ [PrimsAddedNotice entries]) (observers self)\<rparr>"

text \<open>
  Modelled from the spec: \<^verbatim>\<open>_SendPrimsRemoved\<close> of the base class, not among the
  sources; it delivers the batch, as a single batch, to each registered observer.
\<close>

definition SendPrimsRemoved ::
  "('t, 'o, 'l) HdPrefixingSceneIndex \<Rightarrow> RemovedPrimEntry list \<Rightarrow> ('t, 'o, 'l) HdPrefixingSceneIndex" where
  "SendPrimsRemoved self entries =
     self\<lparr>observers := map (\<lambda>received. received @ [PrimsRemovedNotice entries]) (observers self)\<rparr>"

text \<open>
  Modelled from the spec: \<^verbatim>\<open>_SendPrimsDirtied\<close> of the base class, not among the
  sources; it delivers the batch, as a single batch, to each registered observer.
\<close>

definition SendPrimsDirtied ::
  "('t, 'o, 'l) HdPrefixingSceneIndex \<Rightarrow> 'l DirtiedPrimEntry list \<Rightarrow> ('t, 'o, 'l) HdPrefixingSceneIndex" where
  "SendPrimsDirtied self entries =
     self\<lparr>observers := map (\<lambda>received. received @ [PrimsDirtiedNotice entries]) (observers self)\<rparr>"

text \<open>
  The three notification handlers. Each loop appends one translated entry per input
  entry to \<^verbatim>\<open>prefixedEntries\<close>, which starts empty; the sender is not used.
\<close>

definition PrimsAdded ::
  "('t, 'o, 'l) HdPrefixingSceneIndex \<Rightarrow> ('t, 'o) HdSceneIndexBase \<Rightarrow> AddedPrimEntry list
   \<Rightarrow> ('t, 'o, 'l) HdPrefixingSceneIndex" where
  "PrimsAdded self sender entries =
     (let prefixedEntries =
            foldl (\<lambda>prefixedEntries entry. prefixedEntries @
                     [AddedPrimEntry (AddPathPrefix self (AddedPrimEntry_primPath entry))
                                     (AddedPrimEntry_primType entry)])
                  [] entries
      in SendPrimsAdded self prefixedEntries)"

definition PrimsRemoved ::
  "('t, 'o, 'l) HdPrefixingSceneIndex \<Rightarrow> ('t, 'o) HdSceneIndexBase \<Rightarrow> RemovedPrimEntry list
   \<Rightarrow> ('t, 'o, 'l) HdPrefixingSceneIndex" where
  "PrimsRemoved self sender entries =
     (let prefixedEntries =
            foldl (\<lambda>prefixedEntries entry. prefixedEntries @
                     [RemovedPrimEntry (AddPathPrefix self (RemovedPrimEntry_primPath entry))])
                  [] entries
      in SendPrimsRemoved self prefixedEntries)"

definition PrimsDirtied ::
  "('t, 'o, 'l) HdPrefixingSceneIndex \<Rightarrow> ('t, 'o) HdSceneIndexBase \<Rightarrow> 'l DirtiedPrimEntry list
   \<Rightarrow> ('t, 'o, 'l) HdPrefixingSceneIndex" where
  "PrimsDirtied self sender entries =
     (let prefixedEntries =
            foldl (\<lambda>prefixedEntries entry. prefixedEntries @
                     [DirtiedPrimEntry (AddPathPrefix self (DirtiedPrimEntry_primPath entry))
                                       (DirtiedPrimEntry_dirtyLocators entry)])
                  [] entries
      in SendPrimsDirtied self prefixedEntries)"

section \<open>The spec's examples\<close>

text \<open>The prefix \<^verbatim>\<open>/A/B/C/D\<close> of the spec's examples, and a scene index with it.\<close>

definition prefix_ABCD :: SdfPath where
  "prefix_ABCD = Path True [''A'', ''B'', ''C'', ''D'']"

text \<open>
  An input scene whose root has the children \<^verbatim>\<open>/X\<close> and \<^verbatim>\<open>/Y\<close>; the prim at
  \<^verbatim>\<open>/X\<close> has the type \<^verbatim>\<open>mesh\<close> and a container with one path-typed leaf
  \<^verbatim>\<open>target\<close> of value \<^verbatim>\<open>/Foo/Bar\<close>; the prim at \<^verbatim>\<open>/Y\<close> has a type and no
  data source; no other path has a prim.
\<close>

definition leaf_FooBar :: "int HdPathDataSource" where
  "leaf_FooBar =
     UpstreamPathDataSource
       (\<lambda>t. VtValue (Path True [''Foo'', ''Bar'']))
       (\<lambda>t. Path True [''Foo'', ''Bar''])
       (\<lambda>s e out. (False, out))"

definition leaf_relative :: "int HdPathDataSource" where
  "leaf_relative =
     UpstreamPathDataSource
       (\<lambda>t. VtValue (Path False [''Foo'', ''Bar'']))
       (\<lambda>t. Path False [''Foo'', ''Bar''])
       (\<lambda>s e out. (False, out))"

definition container_X :: "(int, nat) HdContainerDataSource" where
  "container_X =
     UpstreamContainerDataSource
       (\<lambda>name. name \<in> set [''target'', ''size'', ''nested''])
       [''target'', ''size'', ''nested'']
       (\<lambda>name. if name = ''target'' then Some (PathDataSource leaf_FooBar)
               else if name = ''size'' then Some (OtherDataSource 7)
               else if name = ''nested''
               then Some (ContainerDataSource
                            (UpstreamContainerDataSource (\<lambda>n. False) [] (\<lambda>n. None)))
               else None)"

definition input_XY :: "(int, nat) HdSceneIndexBase" where
  "input_XY =
     \<lparr>GetPrim = (\<lambda>p. if p = Path True [''X'']
                       then \<lparr>primType = ''mesh'', dataSource = Some container_X\<rparr>
                     else if p = Path True [''Y'']
                       then \<lparr>primType = ''scope'', dataSource = None\<rparr>
                     else \<lparr>primType = [], dataSource = None\<rparr>),
      GetChildPrimPaths = (\<lambda>p. if p = AbsoluteRootPath
                                  then [Path True [''X''], Path True [''Y'']] else [])\<rparr>"

definition scene_ABCD :: "(int, nat, nat) HdPrefixingSceneIndex" where
  "scene_ABCD = \<lparr>inputSceneIndex = Some input_XY, prefix = prefix_ABCD, observers = [[]]\<rparr>"

definition scene_null :: "(int, nat, nat) HdPrefixingSceneIndex" where
  "scene_null = \<lparr>inputSceneIndex = None, prefix = prefix_ABCD, observers = [[]]\<rparr>"

section \<open>Prefix round trip\<close>

lemma HasPrefix_root: "IsAbsolutePath p \<Longrightarrow> HasPrefix p AbsoluteRootPath"
  by (cases p) (simp_all add: AbsoluteRootPath_def)

lemma ReplacePrefix_root:
  "ReplacePrefix (Path True es) AbsoluteRootPath (Path c ns) = Path c (ns @ es)"
  by (simp add: AbsoluteRootPath_def)

lemma ReplacePrefix_to_root:
  "HasPrefix (Path a es) (Path c ns) \<Longrightarrow>
   ReplacePrefix (Path a es) (Path c ns) AbsoluteRootPath = Path True (drop (length ns) es)"
  by (simp add: AbsoluteRootPath_def)

text \<open>
  C4. Prefix round trip. Removing the prefix from an absolute path to which the prefix
  was added gives the path back, for a scene index whose prefix is a path (not the empty
  path \<^verbatim>\<open>SdfPath()\<close>); and adding the prefix to a path that has the prefix, from
  which the prefix was removed, gives the path back.
\<close>

theorem prefix_round_trip:
  "(prefix self \<noteq> EmptyPath \<longrightarrow> IsAbsolutePath p \<longrightarrow>
      RemovePathPrefix self (AddPathPrefix self p) = p)
   \<and> (HasPrefix q (prefix self) \<longrightarrow> AddPathPrefix self (RemovePathPrefix self q) = q)"
proof (intro conjI impI)
  assume "prefix self \<noteq> EmptyPath" and "IsAbsolutePath p"
  then obtain c ns es where pre: "prefix self = Path c ns" and p: "p = Path True es"
    by (cases "prefix self"; cases p) auto
  have "AddPathPrefix self p = Path c (ns @ es)"
    by (simp add: AddPathPrefix_def p pre ReplacePrefix_root)
  moreover have "HasPrefix (Path c (ns @ es)) (Path c ns)"
    by simp
  ultimately show "RemovePathPrefix self (AddPathPrefix self p) = p"
    by (simp add: RemovePathPrefix_def pre p ReplacePrefix_to_root)
next
  assume has: "HasPrefix q (prefix self)"
  then obtain c ns es where pre: "prefix self = Path c ns"
    and q: "q = Path c es" and tk: "take (length ns) es = ns"
    by (cases "prefix self"; cases q) auto
  have "RemovePathPrefix self q = Path True (drop (length ns) es)"
    using has by (simp add: RemovePathPrefix_def pre q ReplacePrefix_to_root)
  then have "AddPathPrefix self (RemovePathPrefix self q)
               = Path c (ns @ drop (length ns) es)"
    by (simp add: AddPathPrefix_def pre ReplacePrefix_root)
  also have "ns @ drop (length ns) es = es"
    using tk append_take_drop_id [of "length ns" es] by simp
  finally show "AddPathPrefix self (RemovePathPrefix self q) = q"
    by (simp add: q)
qed

theorem prefix_round_trip_witness:
  "prefix scene_ABCD \<noteq> EmptyPath
   \<and> IsAbsolutePath (Path True [''X'', ''Z''])
   \<and> HasPrefix (Path True [''A'', ''B'', ''C'', ''D'', ''X'']) (prefix scene_ABCD)
   \<and> AddPathPrefix scene_ABCD (Path True [''X'', ''Z''])
       = Path True [''A'', ''B'', ''C'', ''D'', ''X'', ''Z'']
   \<and> RemovePathPrefix scene_ABCD (AddPathPrefix scene_ABCD (Path True [''X'', ''Z'']))
       = Path True [''X'', ''Z'']
   \<and> RemovePathPrefix scene_ABCD (Path True [''A'', ''B'', ''C'', ''D'', ''X''])
       = Path True [''X'']
   \<and> AddPathPrefix scene_ABCD
        (RemovePathPrefix scene_ABCD (Path True [''A'', ''B'', ''C'', ''D'', ''X'']))
       = Path True [''A'', ''B'', ''C'', ''D'', ''X'']"
  using prefix_round_trip [of scene_ABCD "Path True [''X'', ''Z'']"
                              "Path True [''A'', ''B'', ''C'', ''D'', ''X'']"]
  by (simp add: scene_ABCD_def prefix_ABCD_def AddPathPrefix_def RemovePathPrefix_def
                AbsoluteRootPath_def)

section \<open>Child paths outside the prefix\<close>

lemma GetPrefixes_length: "length (GetPrefixes p) = GetPathElementCount p"
  by (cases p) simp_all

lemma strict_prefix_count:
  assumes "HasPrefix pre q" and "\<not> HasPrefix q pre"
  shows "GetPathElementCount q < GetPathElementCount pre"
proof -
  from assms(1) obtain a ps qs where pre: "pre = Path a ps" and q: "q = Path a qs"
    and tk: "take (length qs) ps = qs"
    by (cases pre; cases q) auto
  have "length (take (length qs) ps) = length qs"
    by (simp only: tk)
  then have le: "length qs \<le> length ps"
    by simp
  have "length qs \<noteq> length ps"
  proof
    assume eq: "length qs = length ps"
    with tk have "ps = qs" by simp
    with assms(2) pre q show False by simp
  qed
  with le show ?thesis by (simp add: pre q)
qed

lemma junction_child:
  assumes "HasPrefix pre q" and "\<not> HasPrefix q pre"
  shows "HasPrefix (GetPrefixes pre ! GetPathElementCount q) q
       \<and> HasPrefix pre (GetPrefixes pre ! GetPathElementCount q)
       \<and> GetPathElementCount (GetPrefixes pre ! GetPathElementCount q)
           = Suc (GetPathElementCount q)"
proof -
  from assms(1) obtain a ps qs where pre: "pre = Path a ps" and q: "q = Path a qs"
    and tk: "take (length qs) ps = qs"
    by (cases pre; cases q) auto
  have lt: "length qs < length ps"
    using strict_prefix_count [OF assms] by (simp add: pre q)
  have nth: "GetPrefixes pre ! GetPathElementCount q = Path a (take (Suc (length qs)) ps)"
    using lt by (simp add: pre q)
  have "take (length qs) (take (Suc (length qs)) ps) = take (length qs) ps"
    by (simp add: min_def)
  with tk have 1: "HasPrefix (Path a (take (Suc (length qs)) ps)) q"
    by (simp add: q)
  have 2: "HasPrefix pre (Path a (take (Suc (length qs)) ps))"
    using lt by (simp add: pre min_def)
  have 3: "GetPathElementCount (Path a (take (Suc (length qs)) ps)) = Suc (GetPathElementCount q)"
    using lt by (simp add: q min_def)
  from 1 2 3 show ?thesis
    by (simp only: nth) 
qed

text \<open>
  C1. For every query path \<open>q\<close> that does not have the prefix as a prefix,
  \<^verbatim>\<open>GetChildPrimPaths(q)\<close> returns the one-element list holding the entry of
  \<^verbatim>\<open>prefix.GetPrefixes()\<close> at index \<^verbatim>\<open>q.GetPathElementCount()\<close> when the prefix
  has \<open>q\<close> as a prefix, and the empty list otherwise. In the first case the index is in
  range and the entry is the next element on the chain from \<open>q\<close> down to the prefix:
  it has \<open>q\<close> as a prefix, is a prefix of the prefix, and has one more element than
  \<open>q\<close>.
\<close>

theorem GetChildPrimPaths_outside_prefix:
  assumes "\<not> HasPrefix q (prefix self)"
  shows "HdPrefixingSceneIndex_GetChildPrimPaths self q =
           Inr (if HasPrefix (prefix self) q
                then [GetPrefixes (prefix self) ! GetPathElementCount q]
                else [])
       \<and> (HasPrefix (prefix self) q \<longrightarrow>
            GetPathElementCount q < length (GetPrefixes (prefix self))
          \<and> HasPrefix (GetPrefixes (prefix self) ! GetPathElementCount q) q
          \<and> HasPrefix (prefix self) (GetPrefixes (prefix self) ! GetPathElementCount q)
          \<and> GetPathElementCount (GetPrefixes (prefix self) ! GetPathElementCount q)
              = Suc (GetPathElementCount q))"
proof -
  have result: "HdPrefixingSceneIndex_GetChildPrimPaths self q =
           Inr (if HasPrefix (prefix self) q
                then [GetPrefixes (prefix self) ! GetPathElementCount q]
                else [])"
    using assms strict_prefix_count [of "prefix self" q]
    by (simp add: HdPrefixingSceneIndex_GetChildPrimPaths_def GetPrefixes_length Let_def)
  have "GetPathElementCount q < length (GetPrefixes (prefix self))"
    if "HasPrefix (prefix self) q"
    using strict_prefix_count [OF that assms] by (simp add: GetPrefixes_length)
  with result junction_child [OF _ assms] show ?thesis
    by blast
qed

theorem GetChildPrimPaths_outside_prefix_witness:
  "\<not> HasPrefix AbsoluteRootPath (prefix scene_ABCD)
   \<and> HasPrefix (prefix scene_ABCD) AbsoluteRootPath
   \<and> HdPrefixingSceneIndex_GetChildPrimPaths scene_ABCD AbsoluteRootPath
       = Inr [Path True [''A'']]
   \<and> \<not> HasPrefix (Path True [''A'', ''B'']) (prefix scene_ABCD)
   \<and> HasPrefix (prefix scene_ABCD) (Path True [''A'', ''B''])
   \<and> HdPrefixingSceneIndex_GetChildPrimPaths scene_ABCD (Path True [''A'', ''B''])
       = Inr [Path True [''A'', ''B'', ''C'']]
   \<and> \<not> HasPrefix (Path True [''A'', ''Z'']) (prefix scene_ABCD)
   \<and> \<not> HasPrefix (prefix scene_ABCD) (Path True [''A'', ''Z''])
   \<and> HdPrefixingSceneIndex_GetChildPrimPaths scene_ABCD (Path True [''A'', ''Z'']) = Inr []"
  using GetChildPrimPaths_outside_prefix [of AbsoluteRootPath scene_ABCD]
        GetChildPrimPaths_outside_prefix [of "Path True [''A'', ''B'']" scene_ABCD]
        GetChildPrimPaths_outside_prefix [of "Path True [''A'', ''Z'']" scene_ABCD]
  by (simp add: scene_ABCD_def prefix_ABCD_def AbsoluteRootPath_def)

text \<open>
  C10. The index expression of the junction branch of \<^verbatim>\<open>GetChildPrimPaths\<close> is
  always in range: when the prefix has \<open>q\<close> as a prefix and \<open>q\<close> does not have the
  prefix as a prefix, \<^verbatim>\<open>q.GetPathElementCount()\<close> is less than the number of entries
  of \<^verbatim>\<open>prefix.GetPrefixes()\<close>; the operation never reads beyond the end, whatever the
  scene index and the query path are.
\<close>

theorem junction_index_in_bounds:
  "(HasPrefix (prefix self) q \<and> \<not> HasPrefix q (prefix self) \<longrightarrow>
      GetPathElementCount q < length (GetPrefixes (prefix self)))
   \<and> HdPrefixingSceneIndex_GetChildPrimPaths self q \<noteq> Inl IndexOutOfRange"
proof -
  have bound: "GetPathElementCount q < length (GetPrefixes (prefix self))"
    if "HasPrefix (prefix self) q" and "\<not> HasPrefix q (prefix self)"
    using strict_prefix_count [OF that] by (simp add: GetPrefixes_length)
  then have "HdPrefixingSceneIndex_GetChildPrimPaths self q \<noteq> Inl IndexOutOfRange"
    by (simp add: HdPrefixingSceneIndex_GetChildPrimPaths_def Let_def split: option.split)
  with bound show ?thesis
    by blast
qed

theorem junction_index_in_bounds_witness:
  "HasPrefix (prefix scene_ABCD) (Path True [''A'', ''B''])
   \<and> \<not> HasPrefix (Path True [''A'', ''B'']) (prefix scene_ABCD)
   \<and> GetPathElementCount (Path True [''A'', ''B'']) = 2
   \<and> length (GetPrefixes (prefix scene_ABCD)) = 4
   \<and> GetPathElementCount (Path True [''A'', ''B'']) < length (GetPrefixes (prefix scene_ABCD))
   \<and> HdPrefixingSceneIndex_GetChildPrimPaths scene_ABCD (Path True [''A'', ''B''])
       \<noteq> Inl IndexOutOfRange"
  using junction_index_in_bounds [of scene_ABCD "Path True [''A'', ''B'']"]
  by (simp add: scene_ABCD_def prefix_ABCD_def)

section \<open>Queries inside the prefix\<close>

text \<open>
  C6. For every query path \<open>q\<close>: when \<open>q\<close> does not have the prefix as a prefix,
  \<^verbatim>\<open>GetPrim(q)\<close> is the absent prim (empty type, null data source); otherwise, with
  an input scene, it is the prim of the input scene at \<^verbatim>\<open>_RemovePathPrefix(q)\<close> with
  the same type, its data source wrapped in a
  \<^verbatim>\<open>Hd_PrefixingSceneIndexContainerDataSource\<close> with the prefix when it is not null,
  and null when it is null.
\<close>

theorem GetPrim_cases:
  "(\<not> HasPrefix q (prefix self) \<longrightarrow>
      HdPrefixingSceneIndex_GetPrim self q = Inr \<lparr>primType = [], dataSource = None\<rparr>)
   \<and> (HasPrefix q (prefix self) \<and> inputSceneIndex self = Some input \<longrightarrow>
        HdPrefixingSceneIndex_GetPrim self q =
          Inr \<lparr>primType = primType (GetPrim input (RemovePathPrefix self q)),
               dataSource =
                 (case dataSource (GetPrim input (RemovePathPrefix self q)) of
                    Some ds \<Rightarrow>
                      Some (Hd_PrefixingSceneIndexContainerDataSource (prefix self) (Some ds))
                  | None \<Rightarrow> None)\<rparr>)"
  by (simp add: HdPrefixingSceneIndex_GetPrim_def Let_def split: option.split)

theorem GetPrim_cases_witness:
  "\<not> HasPrefix (Path True [''A'']) (prefix scene_ABCD)
   \<and> HdPrefixingSceneIndex_GetPrim scene_ABCD (Path True [''A''])
       = Inr \<lparr>primType = [], dataSource = None\<rparr>
   \<and> HasPrefix (Path True [''A'', ''B'', ''C'', ''D'', ''X'']) (prefix scene_ABCD)
   \<and> inputSceneIndex scene_ABCD = Some input_XY
   \<and> HdPrefixingSceneIndex_GetPrim scene_ABCD (Path True [''A'', ''B'', ''C'', ''D'', ''X''])
       = Inr \<lparr>primType = ''mesh'',
              dataSource = Some (Hd_PrefixingSceneIndexContainerDataSource prefix_ABCD
                                   (Some container_X))\<rparr>
   \<and> HdPrefixingSceneIndex_GetPrim scene_ABCD (Path True [''A'', ''B'', ''C'', ''D'', ''Y''])
       = Inr \<lparr>primType = ''scope'', dataSource = None\<rparr>"
  using GetPrim_cases [of "Path True [''A'']" scene_ABCD input_XY]
        GetPrim_cases [of "Path True [''A'', ''B'', ''C'', ''D'', ''X'']" scene_ABCD input_XY]
        GetPrim_cases [of "Path True [''A'', ''B'', ''C'', ''D'', ''Y'']" scene_ABCD input_XY]
  by (simp add: scene_ABCD_def prefix_ABCD_def input_XY_def RemovePathPrefix_def
                AbsoluteRootPath_def)

lemma reroot_is_AddPathPrefix:
  assumes "prefix self \<noteq> EmptyPath" and "IsAbsolutePath c"
  shows "AppendPath (prefix self) (MakeRelativePath c AbsoluteRootPath) = AddPathPrefix self c"
proof -
  from assms obtain a ns es where "prefix self = Path a ns" and "c = Path True es"
    by (cases "prefix self"; cases c) auto
  then show ?thesis
    by (simp add: AddPathPrefix_def AbsoluteRootPath_def)
qed

text \<open>
  C7. For every query path \<open>q\<close> that has the prefix as a prefix,
  \<^verbatim>\<open>GetChildPrimPaths(q)\<close> is the child list of the input scene at
  \<^verbatim>\<open>_RemovePathPrefix(q)\<close> in the same order, each child \<open>c\<close> replaced by
  \<^verbatim>\<open>prefix.AppendPath(c.MakeRelativePath(root))\<close>. With the prefix
  \<^verbatim>\<open>/A/B/C/D\<close> and the children \<^verbatim>\<open>[/X, /Y]\<close> of the input root, the children of
  \<^verbatim>\<open>/A/B/C/D\<close> are \<^verbatim>\<open>[/A/B/C/D/X, /A/B/C/D/Y]\<close>.
\<close>

theorem GetChildPrimPaths_inside_prefix:
  assumes "HasPrefix q (prefix self)" and "inputSceneIndex self = Some input"
  shows "HdPrefixingSceneIndex_GetChildPrimPaths self q =
           Inr (map (\<lambda>c. AppendPath (prefix self) (MakeRelativePath c AbsoluteRootPath))
                    (GetChildPrimPaths input (RemovePathPrefix self q)))"
  using assms by (simp add: HdPrefixingSceneIndex_GetChildPrimPaths_def)

theorem GetChildPrimPaths_inside_prefix_witness:
  "HasPrefix prefix_ABCD (prefix scene_ABCD)
   \<and> inputSceneIndex scene_ABCD = Some input_XY
   \<and> RemovePathPrefix scene_ABCD prefix_ABCD = AbsoluteRootPath
   \<and> GetChildPrimPaths input_XY AbsoluteRootPath = [Path True [''X''], Path True [''Y'']]
   \<and> HdPrefixingSceneIndex_GetChildPrimPaths scene_ABCD prefix_ABCD
       = Inr [Path True [''A'', ''B'', ''C'', ''D'', ''X''],
              Path True [''A'', ''B'', ''C'', ''D'', ''Y'']]"
  using GetChildPrimPaths_inside_prefix [of prefix_ABCD scene_ABCD input_XY]
  by (simp add: scene_ABCD_def prefix_ABCD_def input_XY_def RemovePathPrefix_def
                AbsoluteRootPath_def)

section \<open>A null input scene\<close>

text \<open>
  C5, as stated, fails: with a null input scene a query for a path that has the prefix
  as a prefix dereferences the null handle, in \<^verbatim>\<open>GetPrim\<close> and in
  \<^verbatim>\<open>GetChildPrimPaths\<close> alike.
\<close>

theorem null_input_counterexample:
  "HdPrefixingSceneIndex_GetPrim scene_null (Path True [''A'', ''B'', ''C'', ''D'', ''X''])
     = Inl NullDereference
   \<and> HdPrefixingSceneIndex_GetChildPrimPaths scene_null (Path True [''A'', ''B'', ''C'', ''D''])
     = Inl NullDereference"
  by (simp add: HdPrefixingSceneIndex_GetPrim_def HdPrefixingSceneIndex_GetChildPrimPaths_def
                scene_null_def prefix_ABCD_def)

text \<open>
  C5, amended. With a null input scene, a query for a path that does not have the
  prefix as a prefix returns its answer without touching the input scene:
  \<^verbatim>\<open>GetPrim\<close> the absent prim and \<^verbatim>\<open>GetChildPrimPaths\<close> its junction or empty
  answer. A query for a path that has the prefix as a prefix dereferences the null
  handle and returns no answer.
\<close>

theorem null_input_queries:
  assumes "inputSceneIndex self = None"
  shows "(\<not> HasPrefix q (prefix self) \<longrightarrow>
            HdPrefixingSceneIndex_GetPrim self q = Inr \<lparr>primType = [], dataSource = None\<rparr>
          \<and> HdPrefixingSceneIndex_GetChildPrimPaths self q =
              Inr (if HasPrefix (prefix self) q
                   then [GetPrefixes (prefix self) ! GetPathElementCount q]
                   else []))
       \<and> (HasPrefix q (prefix self) \<longrightarrow>
            HdPrefixingSceneIndex_GetPrim self q = Inl NullDereference
          \<and> HdPrefixingSceneIndex_GetChildPrimPaths self q = Inl NullDereference)"
  using assms strict_prefix_count [of "prefix self" q]
  by (simp add: HdPrefixingSceneIndex_GetPrim_def HdPrefixingSceneIndex_GetChildPrimPaths_def
                GetPrefixes_length Let_def)

theorem null_input_queries_witness:
  "inputSceneIndex scene_null = None
   \<and> \<not> HasPrefix (Path True [''A'']) (prefix scene_null)
   \<and> HasPrefix (Path True [''A'', ''B'', ''C'', ''D'', ''X'']) (prefix scene_null)
   \<and> HdPrefixingSceneIndex_GetPrim scene_null (Path True [''A''])
       = Inr \<lparr>primType = [], dataSource = None\<rparr>
   \<and> HdPrefixingSceneIndex_GetChildPrimPaths scene_null (Path True [''A''])
       = Inr [Path True [''A'', ''B'']]
   \<and> HdPrefixingSceneIndex_GetPrim scene_null (Path True [''A'', ''B'', ''C'', ''D'', ''X''])
       = Inl NullDereference"
  using null_input_queries [of scene_null "Path True [''A'']"]
        null_input_queries [of scene_null "Path True [''A'', ''B'', ''C'', ''D'', ''X'']"]
  by (simp add: scene_null_def prefix_ABCD_def)

section \<open>The data source wrappers\<close>

text \<open>
  C8. The path data source wrapper: \<^verbatim>\<open>GetTypedValue(t)\<close> is the empty path when
  the wrapped handle is null; otherwise, with \<open>inner\<close> the wrapped source's typed value
  at \<open>t\<close>, it is \<^verbatim>\<open>inner.ReplacePrefix(root, prefix)\<close> when \<open>inner\<close> is absolute and
  \<open>inner\<close> itself when it is not; and \<^verbatim>\<open>GetValue(t)\<close> is the typed value in a
  \<^verbatim>\<open>VtValue\<close>.
\<close>

theorem PathDataSource_rewrite:
  "GetTypedValue (Hd_PrefixingSceneIndexPathDataSource pre None) t = EmptyPath
   \<and> (IsAbsolutePath (GetTypedValue wrapped t) \<longrightarrow>
        GetTypedValue (Hd_PrefixingSceneIndexPathDataSource pre (Some wrapped)) t
          = ReplacePrefix (GetTypedValue wrapped t) AbsoluteRootPath pre)
   \<and> (\<not> IsAbsolutePath (GetTypedValue wrapped t) \<longrightarrow>
        GetTypedValue (Hd_PrefixingSceneIndexPathDataSource pre (Some wrapped)) t
          = GetTypedValue wrapped t)
   \<and> GetValue (Hd_PrefixingSceneIndexPathDataSource pre handle) t
        = VtValue (GetTypedValue (Hd_PrefixingSceneIndexPathDataSource pre handle) t)"
  by (simp add: Let_def)

theorem PathDataSource_rewrite_witness:
  "IsAbsolutePath (GetTypedValue leaf_FooBar 0)
   \<and> GetTypedValue (Hd_PrefixingSceneIndexPathDataSource prefix_ABCD (Some leaf_FooBar)) 0
       = Path True [''A'', ''B'', ''C'', ''D'', ''Foo'', ''Bar'']
   \<and> \<not> IsAbsolutePath (GetTypedValue leaf_relative 0)
   \<and> GetTypedValue (Hd_PrefixingSceneIndexPathDataSource prefix_ABCD (Some leaf_relative)) 0
       = Path False [''Foo'', ''Bar'']
   \<and> GetValue (Hd_PrefixingSceneIndexPathDataSource prefix_ABCD (Some leaf_FooBar)) 0
       = VtValue (Path True [''A'', ''B'', ''C'', ''D'', ''Foo'', ''Bar''])"
  using PathDataSource_rewrite [of prefix_ABCD 0 leaf_FooBar "Some leaf_FooBar"]
        PathDataSource_rewrite [of prefix_ABCD 0 leaf_relative "Some leaf_relative"]
  by (simp add: leaf_FooBar_def leaf_relative_def prefix_ABCD_def AbsoluteRootPath_def)

text \<open>
  C9. The container wrapper's \<^verbatim>\<open>Get(name)\<close>: nothing when the wrapped handle is
  null or the wrapped container has no child of that name; a container wrapper with the
  same prefix around a child that is a container; a path data source wrapper with the
  same prefix around a child that is a path-typed source; and the child itself,
  unchanged, otherwise.
\<close>

theorem Container_Get_dispatch:
  "Get (Hd_PrefixingSceneIndexContainerDataSource pre None) name = None
   \<and> (Get wrapped name = None \<longrightarrow>
        Get (Hd_PrefixingSceneIndexContainerDataSource pre (Some wrapped)) name = None)
   \<and> (Get wrapped name = Some (ContainerDataSource c) \<longrightarrow>
        Get (Hd_PrefixingSceneIndexContainerDataSource pre (Some wrapped)) name
          = Some (ContainerDataSource (Hd_PrefixingSceneIndexContainerDataSource pre (Some c))))
   \<and> (Get wrapped name = Some (PathDataSource l) \<longrightarrow>
        Get (Hd_PrefixingSceneIndexContainerDataSource pre (Some wrapped)) name
          = Some (PathDataSource (Hd_PrefixingSceneIndexPathDataSource pre (Some l))))
   \<and> (Get wrapped name = Some (OtherDataSource x) \<longrightarrow>
        Get (Hd_PrefixingSceneIndexContainerDataSource pre (Some wrapped)) name
          = Get wrapped name)"
  by simp

theorem Container_Get_dispatch_witness:
  "Get container_X ''absent'' = None
   \<and> Get (Hd_PrefixingSceneIndexContainerDataSource prefix_ABCD (Some container_X)) ''absent''
       = None
   \<and> Get (Hd_PrefixingSceneIndexContainerDataSource prefix_ABCD (Some container_X)) ''nested''
       = Some (ContainerDataSource (Hd_PrefixingSceneIndexContainerDataSource prefix_ABCD
                 (Some (UpstreamContainerDataSource (\<lambda>n. False) [] (\<lambda>n. None)))))
   \<and> Get (Hd_PrefixingSceneIndexContainerDataSource prefix_ABCD (Some container_X)) ''target''
       = Some (PathDataSource (Hd_PrefixingSceneIndexPathDataSource prefix_ABCD
                 (Some leaf_FooBar)))
   \<and> Get container_X ''size'' = Some (OtherDataSource 7)
   \<and> Get (Hd_PrefixingSceneIndexContainerDataSource prefix_ABCD (Some container_X)) ''size''
       = Some (OtherDataSource 7)"
  using Container_Get_dispatch [of prefix_ABCD "''absent''" container_X]
        Container_Get_dispatch [of prefix_ABCD "''nested''" container_X
           "UpstreamContainerDataSource (\<lambda>n. False) [] (\<lambda>n. None)"]
        Container_Get_dispatch [of prefix_ABCD "''target''" container_X _ leaf_FooBar]
        Container_Get_dispatch [of prefix_ABCD "''size''" container_X _ _ 7]
  by (simp add: container_X_def)

text \<open>
  C2, as stated, fails: a path-typed leaf wrapped twice with the same prefix is
  prefixed twice. With the prefix \<^verbatim>\<open>/A/B/C/D\<close> the upstream value \<^verbatim>\<open>/Foo/Bar\<close> is
  \<^verbatim>\<open>/A/B/C/D/Foo/Bar\<close> when wrapped once and \<^verbatim>\<open>/A/B/C/D/A/B/C/D/Foo/Bar\<close> when
  wrapped twice.
\<close>

theorem rewrap_counterexample:
  "GetTypedValue (Hd_PrefixingSceneIndexPathDataSource prefix_ABCD (Some leaf_FooBar)) 0
     = Path True [''A'', ''B'', ''C'', ''D'', ''Foo'', ''Bar'']
   \<and> GetTypedValue (Hd_PrefixingSceneIndexPathDataSource prefix_ABCD
        (Some (Hd_PrefixingSceneIndexPathDataSource prefix_ABCD (Some leaf_FooBar)))) 0
     = Path True [''A'', ''B'', ''C'', ''D'', ''A'', ''B'', ''C'', ''D'', ''Foo'', ''Bar'']
   \<and> GetTypedValue (Hd_PrefixingSceneIndexPathDataSource prefix_ABCD
        (Some (Hd_PrefixingSceneIndexPathDataSource prefix_ABCD (Some leaf_FooBar)))) 0
     \<noteq> GetTypedValue (Hd_PrefixingSceneIndexPathDataSource prefix_ABCD (Some leaf_FooBar)) 0"
  by (simp add: leaf_FooBar_def prefix_ABCD_def AbsoluteRootPath_def)

lemma ReplacePrefix_root_fixed:
  "IsAbsolutePath v \<Longrightarrow> ReplacePrefix v AbsoluteRootPath pre = v \<longleftrightarrow> pre = AbsoluteRootPath"
  by (cases v; cases pre) (auto simp: AbsoluteRootPath_def)

text \<open>
  C2, amended. Wrapping a wrapped container once more with the same prefix leaves
  \<^verbatim>\<open>Has\<close> and \<^verbatim>\<open>GetNames\<close> as they are, and \<^verbatim>\<open>Get\<close> finds a child under
  the same names: a child of another kind is the same child, a container or path-typed
  child is the child of the singly wrapped container wrapped once more. The typed value
  of a path-typed leaf wrapped twice is the value of the leaf wrapped once with the
  prefix added again when that value is absolute; the two values are equal exactly when
  the value of the leaf wrapped once is not absolute or the prefix is the absolute
  root.
\<close>

theorem rewrap_amended:
  "Has (Hd_PrefixingSceneIndexContainerDataSource pre
          (Some (Hd_PrefixingSceneIndexContainerDataSource pre handle))) name
     = Has (Hd_PrefixingSceneIndexContainerDataSource pre handle) name
   \<and> GetNames (Hd_PrefixingSceneIndexContainerDataSource pre
          (Some (Hd_PrefixingSceneIndexContainerDataSource pre handle)))
     = GetNames (Hd_PrefixingSceneIndexContainerDataSource pre handle)
   \<and> Get (Hd_PrefixingSceneIndexContainerDataSource pre
          (Some (Hd_PrefixingSceneIndexContainerDataSource pre handle))) name
     = (case Get (Hd_PrefixingSceneIndexContainerDataSource pre handle) name of
          None \<Rightarrow> None
        | Some (ContainerDataSource c) \<Rightarrow>
            Some (ContainerDataSource (Hd_PrefixingSceneIndexContainerDataSource pre (Some c)))
        | Some (PathDataSource l) \<Rightarrow>
            Some (PathDataSource (Hd_PrefixingSceneIndexPathDataSource pre (Some l)))
        | Some (OtherDataSource x) \<Rightarrow> Some (OtherDataSource x))
   \<and> GetTypedValue (Hd_PrefixingSceneIndexPathDataSource pre
          (Some (Hd_PrefixingSceneIndexPathDataSource pre leaf))) t
     = (if IsAbsolutePath (GetTypedValue (Hd_PrefixingSceneIndexPathDataSource pre leaf) t)
        then ReplacePrefix (GetTypedValue (Hd_PrefixingSceneIndexPathDataSource pre leaf) t)
               AbsoluteRootPath pre
        else GetTypedValue (Hd_PrefixingSceneIndexPathDataSource pre leaf) t)
   \<and> (GetTypedValue (Hd_PrefixingSceneIndexPathDataSource pre
          (Some (Hd_PrefixingSceneIndexPathDataSource pre leaf))) t
        = GetTypedValue (Hd_PrefixingSceneIndexPathDataSource pre leaf) t
      \<longleftrightarrow> \<not> IsAbsolutePath (GetTypedValue (Hd_PrefixingSceneIndexPathDataSource pre leaf) t)
          \<or> pre = AbsoluteRootPath)"
proof -
  let ?single = "GetTypedValue (Hd_PrefixingSceneIndexPathDataSource pre leaf) t"
  let ?double = "GetTypedValue (Hd_PrefixingSceneIndexPathDataSource pre
          (Some (Hd_PrefixingSceneIndexPathDataSource pre leaf))) t"
  have double: "?double = (if IsAbsolutePath ?single
                           then ReplacePrefix ?single AbsoluteRootPath pre else ?single)"
    by (simp add: Let_def)
  have same: "?double = ?single \<longleftrightarrow> \<not> IsAbsolutePath ?single \<or> pre = AbsoluteRootPath"
    unfolding double using ReplacePrefix_root_fixed [of ?single pre] by auto
  have get: "Get (Hd_PrefixingSceneIndexContainerDataSource pre
          (Some (Hd_PrefixingSceneIndexContainerDataSource pre handle))) name
     = (case Get (Hd_PrefixingSceneIndexContainerDataSource pre handle) name of
          None \<Rightarrow> None
        | Some (ContainerDataSource c) \<Rightarrow>
            Some (ContainerDataSource (Hd_PrefixingSceneIndexContainerDataSource pre (Some c)))
        | Some (PathDataSource l) \<Rightarrow>
            Some (PathDataSource (Hd_PrefixingSceneIndexPathDataSource pre (Some l)))
        | Some (OtherDataSource x) \<Rightarrow> Some (OtherDataSource x))"
    by (simp split: option.split HdDataSourceBase.split)
  show ?thesis
    using double same get by simp
qed

theorem rewrap_amended_witness:
  "\<not> IsAbsolutePath (GetTypedValue
        (Hd_PrefixingSceneIndexPathDataSource prefix_ABCD (Some leaf_relative)) 0)
   \<and> GetTypedValue (Hd_PrefixingSceneIndexPathDataSource prefix_ABCD
        (Some (Hd_PrefixingSceneIndexPathDataSource prefix_ABCD (Some leaf_relative)))) 0
     = GetTypedValue (Hd_PrefixingSceneIndexPathDataSource prefix_ABCD (Some leaf_relative)) 0
   \<and> Get (Hd_PrefixingSceneIndexContainerDataSource prefix_ABCD
        (Some (Hd_PrefixingSceneIndexContainerDataSource prefix_ABCD (Some container_X))))
        ''size''
     = Some (OtherDataSource 7)
   \<and> GetNames (Hd_PrefixingSceneIndexContainerDataSource prefix_ABCD
        (Some (Hd_PrefixingSceneIndexContainerDataSource prefix_ABCD (Some container_X))))
     = [''target'', ''size'', ''nested'']"
  using rewrap_amended [of prefix_ABCD "Some container_X" "''size''" "Some leaf_relative" 0]
  by (simp add: leaf_relative_def container_X_def prefix_ABCD_def AbsoluteRootPath_def)

section \<open>Notifications\<close>

lemma foldl_append_one: "foldl (\<lambda>acc entry. acc @ [f entry]) acc0 entries = acc0 @ map f entries"
  by (induction entries arbitrary: acc0) simp_all

lemma PrimsAdded_batch:
  "PrimsAdded self sender entries =
     SendPrimsAdded self
       (map (\<lambda>entry. AddedPrimEntry (AddPathPrefix self (AddedPrimEntry_primPath entry))
                                     (AddedPrimEntry_primType entry)) entries)"
  by (simp add: PrimsAdded_def foldl_append_one)

lemma PrimsRemoved_batch:
  "PrimsRemoved self sender entries =
     SendPrimsRemoved self
       (map (\<lambda>entry. RemovedPrimEntry (AddPathPrefix self (RemovedPrimEntry_primPath entry)))
            entries)"
  by (simp add: PrimsRemoved_def foldl_append_one)

lemma PrimsDirtied_batch:
  "PrimsDirtied self sender entries =
     SendPrimsDirtied self
       (map (\<lambda>entry. DirtiedPrimEntry (AddPathPrefix self (DirtiedPrimEntry_primPath entry))
                                       (DirtiedPrimEntry_dirtyLocators entry)) entries)"
  by (simp add: PrimsDirtied_def foldl_append_one)

text \<open>
  C3. For each of the three kinds of notification (added, removed, dirtied) and any
  batch of entries from the input scene, every observer of the scene index receives
  one more batch, of the same length, whose entry at each index has the path of the
  input entry at that index with the prefix added (\<^verbatim>\<open>_AddPathPrefix\<close>) and the
  other field of that entry (prim type, dirty locators) unchanged; nothing else of the
  scene index changes.
\<close>

theorem notifications_forwarded:
  "(\<exists>batch.
      PrimsAdded self sender added =
        self\<lparr>observers := map (\<lambda>received. received @ [PrimsAddedNotice batch]) (observers self)\<rparr>
      \<and> length batch = length added
      \<and> (\<forall>i<length added.
            AddedPrimEntry_primPath (batch ! i)
              = AddPathPrefix self (AddedPrimEntry_primPath (added ! i))
          \<and> AddedPrimEntry_primType (batch ! i) = AddedPrimEntry_primType (added ! i)))
   \<and> (\<exists>batch.
      PrimsRemoved self sender removed =
        self\<lparr>observers := map (\<lambda>received. received @ [PrimsRemovedNotice batch]) (observers self)\<rparr>
      \<and> length batch = length removed
      \<and> (\<forall>i<length removed.
            RemovedPrimEntry_primPath (batch ! i)
              = AddPathPrefix self (RemovedPrimEntry_primPath (removed ! i))))
   \<and> (\<exists>batch.
      PrimsDirtied self sender dirtied =
        self\<lparr>observers := map (\<lambda>received. received @ [PrimsDirtiedNotice batch]) (observers self)\<rparr>
      \<and> length batch = length dirtied
      \<and> (\<forall>i<length dirtied.
            DirtiedPrimEntry_primPath (batch ! i)
              = AddPathPrefix self (DirtiedPrimEntry_primPath (dirtied ! i))
          \<and> DirtiedPrimEntry_dirtyLocators (batch ! i)
              = DirtiedPrimEntry_dirtyLocators (dirtied ! i)))"
proof (intro conjI)
  show "\<exists>batch.
      PrimsAdded self sender added =
        self\<lparr>observers := map (\<lambda>received. received @ [PrimsAddedNotice batch]) (observers self)\<rparr>
      \<and> length batch = length added
      \<and> (\<forall>i<length added.
            AddedPrimEntry_primPath (batch ! i)
              = AddPathPrefix self (AddedPrimEntry_primPath (added ! i))
          \<and> AddedPrimEntry_primType (batch ! i) = AddedPrimEntry_primType (added ! i))"
    by (rule exI [where x = "map (\<lambda>entry. AddedPrimEntry
             (AddPathPrefix self (AddedPrimEntry_primPath entry))
             (AddedPrimEntry_primType entry)) added"])
       (simp add: PrimsAdded_batch SendPrimsAdded_def)
  show "\<exists>batch.
      PrimsRemoved self sender removed =
        self\<lparr>observers := map (\<lambda>received. received @ [PrimsRemovedNotice batch]) (observers self)\<rparr>
      \<and> length batch = length removed
      \<and> (\<forall>i<length removed.
            RemovedPrimEntry_primPath (batch ! i)
              = AddPathPrefix self (RemovedPrimEntry_primPath (removed ! i)))"
    by (rule exI [where x = "map (\<lambda>entry. RemovedPrimEntry
             (AddPathPrefix self (RemovedPrimEntry_primPath entry))) removed"])
       (simp add: PrimsRemoved_batch SendPrimsRemoved_def)
  show "\<exists>batch.
      PrimsDirtied self sender dirtied =
        self\<lparr>observers := map (\<lambda>received. received @ [PrimsDirtiedNotice batch]) (observers self)\<rparr>
      \<and> length batch = length dirtied
      \<and> (\<forall>i<length dirtied.
            DirtiedPrimEntry_primPath (batch ! i)
              = AddPathPrefix self (DirtiedPrimEntry_primPath (dirtied ! i))
          \<and> DirtiedPrimEntry_dirtyLocators (batch ! i)
              = DirtiedPrimEntry_dirtyLocators (dirtied ! i))"
    by (rule exI [where x = "map (\<lambda>entry. DirtiedPrimEntry
             (AddPathPrefix self (DirtiedPrimEntry_primPath entry))
             (DirtiedPrimEntry_dirtyLocators entry)) dirtied"])
       (simp add: PrimsDirtied_batch SendPrimsDirtied_def)
qed

theorem notifications_forwarded_witness:
  "observers (PrimsAdded scene_ABCD input_XY
      [AddedPrimEntry (Path True [''X'']) ''mesh'', AddedPrimEntry (Path True [''Y'']) ''scope''])
     = [[PrimsAddedNotice
          [AddedPrimEntry (Path True [''A'', ''B'', ''C'', ''D'', ''X'']) ''mesh'',
           AddedPrimEntry (Path True [''A'', ''B'', ''C'', ''D'', ''Y'']) ''scope'']]]
   \<and> observers (PrimsRemoved scene_ABCD input_XY [RemovedPrimEntry (Path True [''X''])])
     = [[PrimsRemovedNotice [RemovedPrimEntry (Path True [''A'', ''B'', ''C'', ''D'', ''X''])]]]
   \<and> observers (PrimsDirtied scene_ABCD input_XY
        [DirtiedPrimEntry (Path True [''Y'']) 3, DirtiedPrimEntry (Path True [''X'']) 5])
     = [[PrimsDirtiedNotice
          [DirtiedPrimEntry (Path True [''A'', ''B'', ''C'', ''D'', ''Y'']) 3,
           DirtiedPrimEntry (Path True [''A'', ''B'', ''C'', ''D'', ''X'']) 5]]]"
proof -
  let ?added = "[AddedPrimEntry (Path True [''X'']) ''mesh'',
                 AddedPrimEntry (Path True [''Y'']) ''scope'']"
  let ?removed = "[RemovedPrimEntry (Path True [''X''])]"
  let ?dirtied = "[DirtiedPrimEntry (Path True [''Y'']) (3::nat),
                   DirtiedPrimEntry (Path True [''X'']) 5]"
  note fwd = notifications_forwarded [of scene_ABCD input_XY ?added ?removed ?dirtied]
  from fwd obtain a where
    a: "PrimsAdded scene_ABCD input_XY ?added =
          scene_ABCD\<lparr>observers :=
            map (\<lambda>received. received @ [PrimsAddedNotice a]) (observers scene_ABCD)\<rparr>"
    and la: "length a = length ?added"
    and na: "\<forall>i<length ?added.
               AddedPrimEntry_primPath (a ! i)
                 = AddPathPrefix scene_ABCD (AddedPrimEntry_primPath (?added ! i))
             \<and> AddedPrimEntry_primType (a ! i) = AddedPrimEntry_primType (?added ! i)"
    by blast
  from la obtain a0 a1 where a_eq: "a = [a0, a1]"
    by (cases a; cases "tl a") auto
  from na have "AddedPrimEntry_primPath (a ! 0) = Path True [''A'', ''B'', ''C'', ''D'', ''X'']"
    and "AddedPrimEntry_primType (a ! 0) = ''mesh''"
    and "AddedPrimEntry_primPath (a ! 1) = Path True [''A'', ''B'', ''C'', ''D'', ''Y'']"
    and "AddedPrimEntry_primType (a ! 1) = ''scope''"
    by (simp_all add: scene_ABCD_def prefix_ABCD_def AddPathPrefix_def AbsoluteRootPath_def)
  with a_eq have a_val: "a = [AddedPrimEntry (Path True [''A'', ''B'', ''C'', ''D'', ''X'']) ''mesh'',
           AddedPrimEntry (Path True [''A'', ''B'', ''C'', ''D'', ''Y'']) ''scope'']"
    by (cases a0; cases a1) simp
  show ?thesis
    using a a_val
    by (simp add: scene_ABCD_def prefix_ABCD_def PrimsRemoved_batch PrimsDirtied_batch
          SendPrimsRemoved_def SendPrimsDirtied_def AddPathPrefix_def AbsoluteRootPath_def)
qed

end
